theory Spec2Isabelle
  imports Main
begin

section \<open>Data model of the EAS GraphQL client (eas-client.ts)\<close>

text \<open>
  A raw attestation is one record of a GraphQL response, with the four fields both
  queries select. \<open>decodedDataJson\<close> is optional: the second draft tests its
  truthiness before decoding, so \<open>None\<close> stands for null/undefined.
\<close>

record RawAttestation =
  r_id :: string
  r_schemaId :: string
  r_refUID :: string
  r_decodedDataJson :: "string option"

record AttestationData =
  uid :: string
  schemaId :: string
  refUID :: string
  data :: "string option"

text \<open>
  \<open>convertRawAttestationToData\<close> (first draft) and
  \<open>convertGraphQLResponseToAttestationData\<close> (second draft): the same body under two
  names.
\<close>

definition convertRawAttestationToData :: "RawAttestation \<Rightarrow> AttestationData" where
  "convertRawAttestationToData rawAttestation =
     \<lparr>uid = r_id rawAttestation,
      schemaId = r_schemaId rawAttestation,
      refUID = r_refUID rawAttestation,
      data = r_decodedDataJson rawAttestation\<rparr>"

definition convertGraphQLResponseToAttestationData :: "RawAttestation \<Rightarrow> AttestationData" where
  "convertGraphQLResponseToAttestationData rawAttestation =
     \<lparr>uid = r_id rawAttestation,
      schemaId = r_schemaId rawAttestation,
      refUID = r_refUID rawAttestation,
      data = r_decodedDataJson rawAttestation\<rparr>"

text \<open>
  The \<open>data\<close> member of a response body: the root record (absent when the store has
  none) and the list of records selected by \<open>refUID\<close>.
\<close>

record GraphQLData =
  d_attestation :: "RawAttestation option"
  d_attestations :: "RawAttestation list option"

text \<open>
  What \<open>response.json()\<close> followed by the destructuring \<open>const { data } = ...\<close>
  can do: the promise rejects (\<open>JsonInvalid\<close>), the body is the JSON value null, whose
  destructuring raises a TypeError (\<open>JsonNull\<close>), or a value is obtained whose
  \<open>data\<close> member is falsy (\<open>None\<close>) or not.
\<close>

datatype JsonBody = JsonInvalid | JsonNull | JsonObject "GraphQLData option"

datatype FetchOutcome =
    FetchRejects
  | Response (ok: bool) (status: nat) (body: JsonBody)

text \<open>The two query templates, and a request: endpoint, query, the variable \<open>uid\<close>.\<close>

datatype Query = GetAttestation | GetLocationAttestation

datatype Request = Post (req_endpoint: string) (req_query: Query) (req_uid: string)

text \<open>
  The store is any function from the number of requests already sent and the request to
  the outcome of \<open>fetch\<close>: the responses may depend on both.
\<close>

type_synonym Network = "nat \<Rightarrow> Request \<Rightarrow> FetchOutcome"

text \<open>
  Effects are recorded in a trace: the requests sent, in order, and the payloads handed
  to the decoder, in order.
\<close>

record Trace =
  sent :: "Request list"
  decoded :: "string option list"

definition emptyTrace :: Trace where
  "emptyTrace = \<lparr>sent = [], decoded = []\<rparr>"

text \<open>Every \<open>throw new Error(...)\<close> of the client, one constructor per message.\<close>

datatype error =
    UnsupportedChainId int
  | GraphQLError nat
  | NoDataReturned
  | NoAttestationsFound string
  | NoAttestationsReferencing string
  | NoAttestationFound
  | NoLocationUIDFound string
  | FetchFailed
  | JsonFailed
  | TypeError

text \<open>
  The decoded payload, as far as the client reads it. The decoder
  \<open>extractDecodedDataFromRaw\<close> lives in data-utils, which is not part of the sources;
  it is a parameter. \<open>None\<close> means that the call (or the property access on its
  result) throws; both drafts catch that.
\<close>

record DecodedData =
  locationUID :: "string option"

type_synonym Decoder = "string option \<Rightarrow> DecodedData option"

record FetchResult =
  attestations :: "AttestationData list"
  locationAttestation :: "AttestationData option"

section \<open>Operations shared by both drafts\<close>

definition getEndpoint :: "int \<Rightarrow> string option" where
  "getEndpoint chainId =
     (if chainId = 1 then Some ''https://mainnet.easscan.org/graphql''
      else if chainId = 10 then Some ''https://optimism.easscan.org/graphql''
      else if chainId = 11155111 then Some ''https://sepolia.easscan.org/graphql''
      else None)"

text \<open>JavaScript truthiness of a \<open>string | null\<close>: null and the empty string are falsy.\<close>

fun truthy :: "string option \<Rightarrow> bool" where
  "truthy None = False"
| "truthy (Some s) = (s \<noteq> [])"

definition fetch :: "Network \<Rightarrow> Request \<Rightarrow> Trace \<Rightarrow> FetchOutcome \<times> Trace" where
  "fetch net req t = (net (length (sent t)) req, t\<lparr>sent := sent t @ [req]\<rparr>)"

definition executeGraphQLQuery ::
  "Network \<Rightarrow> string \<Rightarrow> Query \<Rightarrow> string \<Rightarrow> bool \<Rightarrow> Trace \<Rightarrow> (error + GraphQLData option) \<times> Trace" where
  "executeGraphQLQuery net endpoint query variables throwOnError t =
     (case fetch net (Post endpoint query variables) t of
        (FetchRejects, t') \<Rightarrow> (Inl FetchFailed, t')
      | (Response rok rstatus rbody, t') \<Rightarrow>
          if \<not> rok then
            (if throwOnError then (Inl (GraphQLError rstatus), t') else (Inr None, t'))
          else
            (case rbody of
               JsonInvalid \<Rightarrow> (Inl JsonFailed, t')
             | JsonNull \<Rightarrow> (Inl TypeError, t')
             | JsonObject d \<Rightarrow>
                 if d = None \<and> throwOnError then (Inl NoDataReturned, t') else (Inr d, t')))"

definition fetchInitialAttestations ::
  "Network \<Rightarrow> string \<Rightarrow> string \<Rightarrow> Trace \<Rightarrow> (error + GraphQLData option) \<times> Trace" where
  "fetchInitialAttestations net endpoint attestationId t =
     executeGraphQLQuery net endpoint GetAttestation attestationId True t"

text \<open>\<open>data?.attestation || null\<close>\<close>

definition fetchLocationAttestation ::
  "Network \<Rightarrow> string \<Rightarrow> string \<Rightarrow> Trace \<Rightarrow> (error + RawAttestation option) \<times> Trace" where
  "fetchLocationAttestation net endpoint locUID t =
     (case executeGraphQLQuery net endpoint GetLocationAttestation locUID False t of
        (Inl e, t') \<Rightarrow> (Inl e, t')
      | (Inr None, t') \<Rightarrow> (Inr None, t')
      | (Inr (Some d), t') \<Rightarrow> (Inr (d_attestation d), t'))"

text \<open>
  \<open>fetchLocationData\<close> of the first draft; the second draft's differs only in the
  name of the conversion it calls.
\<close>

definition fetchLocationData1 ::
  "Network \<Rightarrow> string \<Rightarrow> string option \<Rightarrow> Trace \<Rightarrow> (error + AttestationData option) \<times> Trace" where
  "fetchLocationData1 net endpoint locUID t =
     (case locUID of
        None \<Rightarrow> (Inr None, t)
      | Some u \<Rightarrow>
          if u = [] then (Inr None, t)
          else
            (case fetchLocationAttestation net endpoint u t of
               (Inl e, t') \<Rightarrow> (Inl e, t')
             | (Inr None, t') \<Rightarrow> (Inr None, t')
             | (Inr (Some la), t') \<Rightarrow> (Inr (Some (convertRawAttestationToData la)), t')))"

text \<open>The call of the decoder, recorded in the trace.\<close>

definition extractDecodedDataFromRaw ::
  "Decoder \<Rightarrow> string option \<Rightarrow> Trace \<Rightarrow> DecodedData option \<times> Trace" where
  "extractDecodedDataFromRaw dec raw t = (dec raw, t\<lparr>decoded := decoded t @ [raw]\<rparr>)"

definition fetchLocationData2 ::
  "Network \<Rightarrow> string \<Rightarrow> string option \<Rightarrow> Trace \<Rightarrow> (error + AttestationData option) \<times> Trace" where
  "fetchLocationData2 net endpoint locUID t =
     (case locUID of
        None \<Rightarrow> (Inr None, t)
      | Some u \<Rightarrow>
          if u = [] then (Inr None, t)
          else
            (case fetchLocationAttestation net endpoint u t of
               (Inl e, t') \<Rightarrow> (Inl e, t')
             | (Inr None, t') \<Rightarrow> (Inr None, t')
             | (Inr (Some la), t') \<Rightarrow>
                 (Inr (Some (convertGraphQLResponseToAttestationData la)), t')))"

section \<open>First draft\<close>

text \<open>
  The root record is used for the location reference only; a decoder failure is caught
  and leaves \<open>locationUID\<close> null. The mandatory query throws on absent data, so the
  \<open>Inr None\<close> branch (a property read on null) is there for totality.
\<close>

definition fetchMainAttestations1 ::
  "Decoder \<Rightarrow> Network \<Rightarrow> string \<Rightarrow> string \<Rightarrow> Trace
     \<Rightarrow> (error + AttestationData list \<times> string option) \<times> Trace" where
  "fetchMainAttestations1 dec net endpoint attestationId t =
     (case fetchInitialAttestations net endpoint attestationId t of
        (Inl e, t1) \<Rightarrow> (Inl e, t1)
      | (Inr None, t1) \<Rightarrow> (Inl TypeError, t1)
      | (Inr (Some initialData), t1) \<Rightarrow>
          (let (locUID, t2) =
                 (case d_attestation initialData of
                    None \<Rightarrow> (None, t1)
                  | Some a \<Rightarrow>
                      (case extractDecodedDataFromRaw dec (r_decodedDataJson a) t1 of
                         (Some decodedData, t') \<Rightarrow> (locationUID decodedData, t')
                       | (None, t') \<Rightarrow> (None, t')));
               allAttestations =
                 (case d_attestations initialData of
                    None \<Rightarrow> []
                  | Some xs \<Rightarrow> if length xs > 0 then xs else [])
           in if length allAttestations = 0
              then (Inl (NoAttestationsFound attestationId), t2)
              else (Inr (map convertRawAttestationToData allAttestations, locUID), t2)))"

definition fetchAttestations1 ::
  "Decoder \<Rightarrow> Network \<Rightarrow> int \<Rightarrow> string \<Rightarrow> Trace \<Rightarrow> (error + FetchResult) \<times> Trace" where
  "fetchAttestations1 dec net chainId attestationId t =
     (case getEndpoint chainId of
        None \<Rightarrow> (Inl (UnsupportedChainId chainId), t)
      | Some endpoint \<Rightarrow>
          if endpoint = [] then (Inl (UnsupportedChainId chainId), t)
          else
            (case fetchMainAttestations1 dec net endpoint attestationId t of
               (Inl e, t1) \<Rightarrow> (Inl e, t1)
             | (Inr (atts, locUID), t1) \<Rightarrow>
                 (case fetchLocationData1 net endpoint locUID t1 of
                    (Inl e, t2) \<Rightarrow> (Inl e, t2)
                  | (Inr la, t2) \<Rightarrow>
                      (Inr \<lparr>attestations = atts, locationAttestation = la\<rparr>, t2))))"

section \<open>Second draft\<close>

text \<open>
  \<open>extractLocationUID\<close>: throws when the root record is absent, returns
  \<open>decodedData.locationUID || null\<close> when the payload is truthy and decodes, and
  throws otherwise. The message of the first throw interpolates \<open>initialData.uid\<close>,
  a member the response does not have.
\<close>

definition extractLocationUID ::
  "Decoder \<Rightarrow> GraphQLData \<Rightarrow> Trace \<Rightarrow> (error + string option) \<times> Trace" where
  "extractLocationUID dec initialData t =
     (case d_attestation initialData of
        None \<Rightarrow> (Inl NoAttestationFound, t)
      | Some a \<Rightarrow>
          if truthy (r_decodedDataJson a) then
            (case extractDecodedDataFromRaw dec (r_decodedDataJson a) t of
               (Some decodedData, t') \<Rightarrow>
                 (Inr (if truthy (locationUID decodedData)
                       then locationUID decodedData else None), t')
             | (None, t') \<Rightarrow> (Inl (NoLocationUIDFound (r_id a)), t'))
          else (Inl (NoLocationUIDFound (r_id a)), t))"

definition fetchMainAttestations2 ::
  "Decoder \<Rightarrow> Network \<Rightarrow> string \<Rightarrow> string \<Rightarrow> Trace
     \<Rightarrow> (error + AttestationData list \<times> string option) \<times> Trace" where
  "fetchMainAttestations2 dec net endpoint attestationId t =
     (case fetchInitialAttestations net endpoint attestationId t of
        (Inl e, t1) \<Rightarrow> (Inl e, t1)
      | (Inr None, t1) \<Rightarrow> (Inl TypeError, t1)
      | (Inr (Some initialData), t1) \<Rightarrow>
          (case extractLocationUID dec initialData t1 of
             (Inl e, t2) \<Rightarrow> (Inl e, t2)
           | (Inr locUID, t2) \<Rightarrow>
               (let referencingAttestations =
                      (case d_attestations initialData of None \<Rightarrow> [] | Some xs \<Rightarrow> xs)
                in if length referencingAttestations > 0
                   then (Inr (map convertGraphQLResponseToAttestationData
                                referencingAttestations, locUID), t2)
                   else (Inl (NoAttestationsReferencing attestationId), t2))))"

definition fetchAttestations2 ::
  "Decoder \<Rightarrow> Network \<Rightarrow> int \<Rightarrow> string \<Rightarrow> Trace \<Rightarrow> (error + FetchResult) \<times> Trace" where
  "fetchAttestations2 dec net chainId attestationId t =
     (case getEndpoint chainId of
        None \<Rightarrow> (Inl (UnsupportedChainId chainId), t)
      | Some endpoint \<Rightarrow>
          if endpoint = [] then (Inl (UnsupportedChainId chainId), t)
          else
            (case fetchMainAttestations2 dec net endpoint attestationId t of
               (Inl e, t1) \<Rightarrow> (Inl e, t1)
             | (Inr (atts, locUID), t1) \<Rightarrow>
                 (case fetchLocationData2 net endpoint locUID t1 of
                    (Inl e, t2) \<Rightarrow> (Inl e, t2)
                  | (Inr la, t2) \<Rightarrow>
                      (Inr \<lparr>attestations = atts, locationAttestation = la\<rparr>, t2))))"

section \<open>Polygon containment (testPolygonContainment)\<close>

text \<open>
  The collaborators the function imports and that are not part of the sources are
  parameters: \<open>extractLocationFromAttestation\<close> of data-utils, and \<open>polygon\<close>,
  \<open>point\<close> and \<open>booleanContains\<close> of turf. The first three can throw (an error of
  type \<open>'e\<close>); \<open>booleanContains\<close> of a polygon feature and a point feature returns a
  boolean.
\<close>

record 'c LocationData =
  coordinates :: 'c

record ('e, 'c, 'g, 'p) Collaborators =
  extractLocationFromAttestation :: "AttestationData \<Rightarrow> 'e + 'c LocationData"
  polygon :: "'c \<Rightarrow> 'e + 'g"
  point :: "'c \<Rightarrow> 'e + 'p"
  booleanContains :: "'g \<Rightarrow> 'p \<Rightarrow> bool"

record 'c ContainmentResult =
  attestationId :: string
  location :: "'c LocationData"
  isContainedInPolygon :: bool

definition validateObservation ::
  "('e, 'c, 'g, 'p) Collaborators \<Rightarrow> nat \<Rightarrow> AttestationData \<Rightarrow> 'g \<Rightarrow> 'e + 'c ContainmentResult" where
  "validateObservation lib index attestation turfPolygon =
     (case extractLocationFromAttestation lib attestation of
        Inl e \<Rightarrow> Inl e
      | Inr locationData \<Rightarrow>
          (case point lib (coordinates locationData) of
             Inl e \<Rightarrow> Inl e
           | Inr turfPoint \<Rightarrow>
               Inr \<lparr>attestationId = uid attestation,
                    location = locationData,
                    isContainedInPolygon = booleanContains lib turfPolygon turfPoint\<rparr>))"

text \<open>
  \<open>Array.prototype.map\<close> with a callback that can throw: elements are visited in
  order, the callback gets the element and its index, and the first throw ends the call.
\<close>

fun mapWithIndex :: "('a \<Rightarrow> nat \<Rightarrow> 'e + 'b) \<Rightarrow> nat \<Rightarrow> 'a list \<Rightarrow> 'e + 'b list" where
  "mapWithIndex f i [] = Inr []"
| "mapWithIndex f i (x # xs) =
     (case f x i of
        Inl e \<Rightarrow> Inl e
      | Inr y \<Rightarrow>
          (case mapWithIndex f (Suc i) xs of
             Inl e \<Rightarrow> Inl e
           | Inr ys \<Rightarrow> Inr (y # ys)))"

definition testPolygonContainment ::
  "('e, 'c, 'g, 'p) Collaborators \<Rightarrow> AttestationData list \<Rightarrow> AttestationData
     \<Rightarrow> 'e + 'c ContainmentResult list" where
  "testPolygonContainment lib atts locAttestation =
     (case extractLocationFromAttestation lib locAttestation of
        Inl e \<Rightarrow> Inl e
      | Inr polygonData \<Rightarrow>
          (case polygon lib (coordinates polygonData) of
             Inl e \<Rightarrow> Inl e
           | Inr turfPolygon \<Rightarrow>
               mapWithIndex
                 (\<lambda>attestation index. validateObservation lib index attestation turfPolygon)
                 0 atts))"

section \<open>Predicates in which the properties are stated\<close>

text \<open>
  A well-formed HTTPS URL, as far as the endpoint table needs it: the scheme, a
  non-empty host of lower-case letters, digits, dots and hyphens, and a path of
  segments of letters and digits.
\<close>

definition hostChar :: "char \<Rightarrow> bool" where
  "hostChar c = (c \<in> set ''abcdefghijklmnopqrstuvwxyz0123456789.-'')"

definition pathChar :: "char \<Rightarrow> bool" where
  "pathChar c = (c \<in> set ''abcdefghijklmnopqrstuvwxyzABCDEFGHIJKLMNOPQRSTUVWXYZ0123456789/'')"

definition wellFormedHttpsUrl :: "string \<Rightarrow> bool" where
  "wellFormedHttpsUrl u =
     (let rest = drop 8 u;
          host = takeWhile (\<lambda>c. c \<noteq> CHR ''/'') rest;
          path = dropWhile (\<lambda>c. c \<noteq> CHR ''/'') rest
      in take 8 u = ''https://'' \<and> host \<noteq> [] \<and> list_all hostChar host
         \<and> list_all pathChar path)"

text \<open>
  The outcomes of the boundary lookup that the specification calls lenient: a response
  that is not ok, or an ok response whose body has no data or no record.
\<close>

fun boundaryAbsent :: "FetchOutcome \<Rightarrow> bool" where
  "boundaryAbsent FetchRejects = False"
| "boundaryAbsent (Response rok rstatus rbody) =
     (if rok then
        (case rbody of
           JsonObject None \<Rightarrow> True
         | JsonObject (Some d) \<Rightarrow> d_attestation d = None
         | _ \<Rightarrow> False)
      else True)"

text \<open>
  The root record is usable when the chain is unsupported or the combined query fails
  (nothing is read from it), or when the record is there with a non-empty payload that
  the decoder accepts.
\<close>

definition rootUsable :: "Decoder \<Rightarrow> Network \<Rightarrow> int \<Rightarrow> string \<Rightarrow> Trace \<Rightarrow> bool" where
  "rootUsable dec net chainId rootId t =
     (case getEndpoint chainId of
        None \<Rightarrow> True
      | Some endpoint \<Rightarrow>
          (case net (length (sent t)) (Post endpoint GetAttestation rootId) of
             Response True rstatus (JsonObject (Some d)) \<Rightarrow>
               (case d_attestation d of
                  None \<Rightarrow> False
                | Some a \<Rightarrow> truthy (r_decodedDataJson a) \<and> dec (r_decodedDataJson a) \<noteq> None)
           | _ \<Rightarrow> True))"

text \<open>
  A payload is decodable as a polygon (as a point) when the extraction of the location
  and the construction of the turf feature both return.
\<close>

definition decodablePolygon :: "('e, 'c, 'g, 'p) Collaborators \<Rightarrow> AttestationData \<Rightarrow> bool" where
  "decodablePolygon lib a =
     (case extractLocationFromAttestation lib a of
        Inl e \<Rightarrow> False
      | Inr l \<Rightarrow> \<not> isl (polygon lib (coordinates l)))"

definition decodablePoint :: "('e, 'c, 'g, 'p) Collaborators \<Rightarrow> AttestationData \<Rightarrow> bool" where
  "decodablePoint lib a =
     (case extractLocationFromAttestation lib a of
        Inl e \<Rightarrow> False
      | Inr l \<Rightarrow> \<not> isl (point lib (coordinates l)))"

text \<open>
  The first error of a call, in evaluation order: the boundary's extraction, the
  boundary's polygon, then each observation's extraction and point in list order.
\<close>

definition observationError :: "('e, 'c, 'g, 'p) Collaborators \<Rightarrow> AttestationData \<Rightarrow> 'e option" where
  "observationError lib a =
     (case extractLocationFromAttestation lib a of
        Inl e \<Rightarrow> Some e
      | Inr l \<Rightarrow> (case point lib (coordinates l) of Inl e \<Rightarrow> Some e | Inr p \<Rightarrow> None))"

definition boundaryError :: "('e, 'c, 'g, 'p) Collaborators \<Rightarrow> AttestationData \<Rightarrow> 'e option" where
  "boundaryError lib a =
     (case extractLocationFromAttestation lib a of
        Inl e \<Rightarrow> Some e
      | Inr l \<Rightarrow> (case polygon lib (coordinates l) of Inl e \<Rightarrow> Some e | Inr g \<Rightarrow> None))"

fun firstError :: "('a \<Rightarrow> 'e option) \<Rightarrow> 'a list \<Rightarrow> 'e option" where
  "firstError f [] = None"
| "firstError f (x # xs) = (case f x of Some e \<Rightarrow> Some e | None \<Rightarrow> firstError f xs)"

section \<open>The scenario of the specification, for concrete runs\<close>

text \<open>
  Root \<open>0xAAA\<close> with two referencing attestations \<open>0xBBB\<close> and \<open>0xCCC\<close>; its
  payload names the boundary \<open>0xLOC\<close>, a square. The decoder, the store and the
  geometry are small stand-ins that answer for these records.
\<close>

definition rootAAA :: RawAttestation where
  "rootAAA = \<lparr>r_id = ''0xAAA'', r_schemaId = ''0xS0'', r_refUID = ''0x000'',
              r_decodedDataJson = Some ''locationUID=0xLOC''\<rparr>"

definition rootNoLocation :: RawAttestation where
  "rootNoLocation = \<lparr>r_id = ''0xAAA'', r_schemaId = ''0xS0'', r_refUID = ''0x000'',
              r_decodedDataJson = Some ''garbage''\<rparr>"

definition obsBBB :: RawAttestation where
  "obsBBB = \<lparr>r_id = ''0xBBB'', r_schemaId = ''0xS1'', r_refUID = ''0xAAA'',
             r_decodedDataJson = Some ''point=5,5''\<rparr>"

definition obsCCC :: RawAttestation where
  "obsCCC = \<lparr>r_id = ''0xCCC'', r_schemaId = ''0xS1'', r_refUID = ''0xAAA'',
             r_decodedDataJson = Some ''point=50,50''\<rparr>"

definition obsBroken :: RawAttestation where
  "obsBroken = \<lparr>r_id = ''0xDDD'', r_schemaId = ''0xS1'', r_refUID = ''0xAAA'',
             r_decodedDataJson = Some ''garbage''\<rparr>"

definition boundaryLOC :: RawAttestation where
  "boundaryLOC = \<lparr>r_id = ''0xLOC'', r_schemaId = ''0xS2'', r_refUID = ''0x000'',
             r_decodedDataJson = Some ''square''\<rparr>"

definition scenarioDecoder :: Decoder where
  "scenarioDecoder raw =
     (if raw = Some ''locationUID=0xLOC'' then Some \<lparr>locationUID = Some ''0xLOC''\<rparr>
      else None)"

text \<open>
  A store that answers the combined query with the given data and the single lookup
  with the given outcome.
\<close>

definition storeWith :: "GraphQLData \<Rightarrow> FetchOutcome \<Rightarrow> Network" where
  "storeWith d second n req =
     (if req_query req = GetAttestation then Response True 200 (JsonObject (Some d))
      else second)"

definition scenarioLib :: "(string, (int \<times> int) list, (int \<times> int) list, int \<times> int) Collaborators" where
  "scenarioLib =
     \<lparr>extractLocationFromAttestation =
        (\<lambda>a. if data a = Some ''square''
              then Inr \<lparr>coordinates = [(0, 0), (0, 10), (10, 10), (10, 0), (0, 0)]\<rparr>
              else if data a = Some ''point=5,5'' then Inr \<lparr>coordinates = [(5, 5)]\<rparr>
              else if data a = Some ''point=50,50'' then Inr \<lparr>coordinates = [(50, 50)]\<rparr>
              else Inl ''PayloadDecodeError''),
      polygon =
        (\<lambda>cs. if 4 \<le> length cs \<and> hd cs = last cs then Inr cs else Inl ''InvalidRing''),
      point = (\<lambda>cs. case cs of [p] \<Rightarrow> Inr p | _ \<Rightarrow> Inl ''InvalidPoint''),
      booleanContains = (\<lambda>g (x, y). 0 < x \<and> x < 10 \<and> 0 < y \<and> y < 10)\<rparr>"

section \<open>Facts about the shared operations\<close>

lemma getEndpoint_unsupported:
  "chainId \<notin> {1, 10, 11155111} \<Longrightarrow> getEndpoint chainId = None"
  by (simp add: getEndpoint_def)

lemma executeGraphQLQuery_sent:
  "sent (snd (executeGraphQLQuery net endpoint q v b t)) = sent t @ [Post endpoint q v]"
  by (simp add: executeGraphQLQuery_def fetch_def split: FetchOutcome.splits JsonBody.splits)

lemma executeGraphQLQuery_decoded:
  "decoded (snd (executeGraphQLQuery net endpoint q v b t)) = decoded t"
  by (simp add: executeGraphQLQuery_def fetch_def split: FetchOutcome.splits JsonBody.splits)

lemma fetchLocationAttestation_sent:
  "sent (snd (fetchLocationAttestation net endpoint u t))
     = sent t @ [Post endpoint GetLocationAttestation u]"
  using executeGraphQLQuery_sent [of net endpoint GetLocationAttestation u False t]
  by (auto simp: fetchLocationAttestation_def split: prod.splits sum.splits option.splits)

section \<open>The endpoint table\<close>

text \<open>
  C9. \<open>getEndpoint\<close> is a total function of the chain id: on 1, 10 and 11155111 it
  returns a URL, and that URL is a well-formed HTTPS URL; on every other chain id it
  returns null.
\<close>

theorem getEndpoint_table:
  "(chainId \<in> {1, 10, 11155111} \<longrightarrow>
      (\<exists>u. getEndpoint chainId = Some u \<and> wellFormedHttpsUrl u))
   \<and> (chainId \<notin> {1, 10, 11155111} \<longrightarrow> getEndpoint chainId = None)"
proof (intro conjI impI)
  assume "chainId \<in> {1, 10, 11155111}"
  then consider "chainId = 1" | "chainId = 10" | "chainId = 11155111" by auto
  then show "\<exists>u. getEndpoint chainId = Some u \<and> wellFormedHttpsUrl u"
  proof cases
    case 1
    then show ?thesis
      by (simp add: getEndpoint_def wellFormedHttpsUrl_def hostChar_def pathChar_def)
  next
    case 2
    then show ?thesis
      by (simp add: getEndpoint_def wellFormedHttpsUrl_def hostChar_def pathChar_def)
  next
    case 3
    then show ?thesis
      by (simp add: getEndpoint_def wellFormedHttpsUrl_def hostChar_def pathChar_def)
  qed
next
  assume "chainId \<notin> {1, 10, 11155111}"
  then show "getEndpoint chainId = None" by (rule getEndpoint_unsupported)
qed

theorem getEndpoint_table_witness:
  "(1::int) \<in> {1, 10, 11155111} \<and> (5::int) \<notin> {1, 10, 11155111}
   \<and> (\<exists>u. getEndpoint 1 = Some u \<and> wellFormedHttpsUrl u) \<and> getEndpoint 5 = None"
proof -
  have a: "(1::int) \<in> {1, 10, 11155111}" by simp
  have b: "(5::int) \<notin> {1, 10, 11155111}" by simp
  show ?thesis
    using a b getEndpoint_table [of 1] getEndpoint_table [of 5] by blast
qed

section \<open>Unsupported chains\<close>

text \<open>
  C8. For a chain id other than 1, 10 and 11155111, \<open>fetchAttestations\<close> of either
  draft fails with the unsupported-chain error and leaves the trace as it was: no
  request is sent.
\<close>

theorem unsupported_chain_no_request:
  assumes "chainId \<notin> {1, 10, 11155111}"
  shows "fetchAttestations1 dec net chainId rootId t = (Inl (UnsupportedChainId chainId), t)
       \<and> fetchAttestations2 dec net chainId rootId t = (Inl (UnsupportedChainId chainId), t)"
  using getEndpoint_unsupported [OF assms]
  by (simp add: fetchAttestations1_def fetchAttestations2_def)

theorem unsupported_chain_no_request_witness:
  "(137::int) \<notin> {1, 10, 11155111}
   \<and> fetchAttestations1 scenarioDecoder (\<lambda>n req. FetchRejects) 137 ''0xAAA'' emptyTrace
       = (Inl (UnsupportedChainId 137), emptyTrace)
   \<and> fetchAttestations2 scenarioDecoder (\<lambda>n req. FetchRejects) 137 ''0xAAA'' emptyTrace
       = (Inl (UnsupportedChainId 137), emptyTrace)
   \<and> sent emptyTrace = []"
proof -
  have h: "(137::int) \<notin> {1, 10, 11155111}" by simp
  show ?thesis
    using h unsupported_chain_no_request
              [OF h, of scenarioDecoder "\<lambda>n req. FetchRejects" "''0xAAA''" emptyTrace]
    by (simp add: emptyTrace_def)
qed

section \<open>The boundary lookup\<close>

text \<open>
  C10. With a null \<open>locationUID\<close>, \<open>fetchLocationData\<close> of either draft returns null
  and leaves the trace as it was. Whenever it sends a request, a non-null
  \<open>locationUID\<close> was passed, and the request is the single lookup of that identifier.
\<close>

theorem null_locationUID_skips_lookup:
  "(locUID = None \<longrightarrow>
      fetchLocationData1 net endpoint locUID t = (Inr None, t)
      \<and> fetchLocationData2 net endpoint locUID t = (Inr None, t))
   \<and> (sent (snd (fetchLocationData1 net endpoint locUID t)) \<noteq> sent t \<longrightarrow>
        (\<exists>u. locUID = Some u
           \<and> sent (snd (fetchLocationData1 net endpoint locUID t))
               = sent t @ [Post endpoint GetLocationAttestation u]))
   \<and> (sent (snd (fetchLocationData2 net endpoint locUID t)) \<noteq> sent t \<longrightarrow>
        (\<exists>u. locUID = Some u
           \<and> sent (snd (fetchLocationData2 net endpoint locUID t))
               = sent t @ [Post endpoint GetLocationAttestation u]))"
proof (intro conjI impI)
  assume "locUID = None"
  then show "fetchLocationData1 net endpoint locUID t = (Inr None, t)"
    by (simp add: fetchLocationData1_def)
next
  assume "locUID = None"
  then show "fetchLocationData2 net endpoint locUID t = (Inr None, t)"
    by (simp add: fetchLocationData2_def)
next
  assume "sent (snd (fetchLocationData1 net endpoint locUID t)) \<noteq> sent t"
  then obtain u where u: "locUID = Some u" "u \<noteq> []"
    by (cases locUID) (auto simp: fetchLocationData1_def split: if_splits)
  then show "\<exists>u. locUID = Some u
           \<and> sent (snd (fetchLocationData1 net endpoint locUID t))
               = sent t @ [Post endpoint GetLocationAttestation u]"
    using fetchLocationAttestation_sent [of net endpoint u t]
    by (auto simp: fetchLocationData1_def split: prod.splits sum.splits option.splits)
next
  assume "sent (snd (fetchLocationData2 net endpoint locUID t)) \<noteq> sent t"
  then obtain u where u: "locUID = Some u" "u \<noteq> []"
    by (cases locUID) (auto simp: fetchLocationData2_def split: if_splits)
  then show "\<exists>u. locUID = Some u
           \<and> sent (snd (fetchLocationData2 net endpoint locUID t))
               = sent t @ [Post endpoint GetLocationAttestation u]"
    using fetchLocationAttestation_sent [of net endpoint u t]
    by (auto simp: fetchLocationData2_def split: prod.splits sum.splits option.splits)
qed

theorem null_locationUID_skips_lookup_witness:
  "fetchLocationData1 (\<lambda>n req. FetchRejects) ''https://sepolia.easscan.org/graphql'' None emptyTrace
     = (Inr None, emptyTrace)
   \<and> fetchLocationData2 (\<lambda>n req. FetchRejects) ''https://sepolia.easscan.org/graphql'' None emptyTrace
     = (Inr None, emptyTrace)
   \<and> sent (snd (fetchLocationData1 (\<lambda>n req. FetchRejects) ''https://sepolia.easscan.org/graphql''
                  (Some ''0xLOC'') emptyTrace))
     = [Post ''https://sepolia.easscan.org/graphql'' GetLocationAttestation ''0xLOC'']
   \<and> sent (snd (fetchLocationData2 (\<lambda>n req. FetchRejects) ''https://sepolia.easscan.org/graphql''
                  (Some ''0xLOC'') emptyTrace))
     = [Post ''https://sepolia.easscan.org/graphql'' GetLocationAttestation ''0xLOC'']"
proof -
  let ?net = "\<lambda>(n::nat) (req::Request). FetchRejects"
  let ?ep = "''https://sepolia.easscan.org/graphql''"
  have a: "sent (snd (fetchLocationData1 ?net ?ep (Some ''0xLOC'') emptyTrace)) \<noteq> sent emptyTrace"
    by (simp add: fetchLocationData1_def fetchLocationAttestation_def executeGraphQLQuery_def
          fetch_def emptyTrace_def)
  have b: "sent (snd (fetchLocationData2 ?net ?ep (Some ''0xLOC'') emptyTrace)) \<noteq> sent emptyTrace"
    by (simp add: fetchLocationData2_def fetchLocationAttestation_def executeGraphQLQuery_def
          fetch_def emptyTrace_def)
  show ?thesis
    using a b
      null_locationUID_skips_lookup [of None ?net ?ep emptyTrace]
      null_locationUID_skips_lookup [of "Some ''0xLOC''" ?net ?ep emptyTrace]
    by (simp add: emptyTrace_def)
qed

section \<open>Polygon containment\<close>

lemma validateObservation_error:
  "observationError lib a = Some e \<Longrightarrow> validateObservation lib i a g = Inl e"
  by (auto simp: observationError_def validateObservation_def split: sum.splits)

lemma validateObservation_result:
  "observationError lib a = None \<Longrightarrow>
     \<exists>r. validateObservation lib i a g = Inr r \<and> attestationId r = uid a"
  by (auto simp: observationError_def validateObservation_def split: sum.splits)

lemma decodablePoint_iff: "decodablePoint lib a \<longleftrightarrow> observationError lib a = None"
  by (auto simp: decodablePoint_def observationError_def split: sum.splits)

lemma decodablePolygon_iff: "decodablePolygon lib a \<longleftrightarrow> boundaryError lib a = None"
  by (auto simp: decodablePolygon_def boundaryError_def split: sum.splits)

lemma firstError_None_iff: "firstError f xs = None \<longleftrightarrow> list_all (\<lambda>x. f x = None) xs"
  by (induction xs) (auto split: option.splits)

lemma mapWithIndex_validate_error:
  "firstError (observationError lib) xs = Some e \<Longrightarrow>
     mapWithIndex (\<lambda>a i. validateObservation lib i a g) i xs = Inl e"
proof (induction xs arbitrary: i)
  case Nil
  then show ?case by simp
next
  case (Cons x xs)
  show ?case
  proof (cases "observationError lib x")
    case None
    then obtain r where r: "validateObservation lib i x g = Inr r"
      using validateObservation_result [of lib x i g] by auto
    from None Cons.prems have "firstError (observationError lib) xs = Some e" by simp
    then have "mapWithIndex (\<lambda>a i. validateObservation lib i a g) (Suc i) xs = Inl e"
      by (rule Cons.IH)
    with r show ?thesis by simp
  next
    case (Some e')
    with Cons.prems have "e' = e" by simp
    with Some show ?thesis by (simp add: validateObservation_error)
  qed
qed

lemma mapWithIndex_validate_results:
  "firstError (observationError lib) xs = None \<Longrightarrow>
     \<exists>ys. mapWithIndex (\<lambda>a i. validateObservation lib i a g) i xs = Inr ys
        \<and> map attestationId ys = map uid xs"
proof (induction xs arbitrary: i)
  case Nil
  then show ?case by simp
next
  case (Cons x xs)
  from Cons.prems have x: "observationError lib x = None"
    and xs: "firstError (observationError lib) xs = None"
    by (auto split: option.splits)
  from x obtain r where r: "validateObservation lib i x g = Inr r" "attestationId r = uid x"
    using validateObservation_result [of lib x i g] by auto
  from Cons.IH [OF xs] obtain ys
    where ys: "mapWithIndex (\<lambda>a i. validateObservation lib i a g) (Suc i) xs = Inr ys"
              "map attestationId ys = map uid xs"
    by blast
  from r ys show ?case by simp
qed

lemma testPolygonContainment_boundary_ok:
  "boundaryError lib b = None \<Longrightarrow>
     \<exists>g. testPolygonContainment lib obs b
            = mapWithIndex (\<lambda>a i. validateObservation lib i a g) 0 obs"
  by (auto simp: boundaryError_def testPolygonContainment_def split: sum.splits)

lemma testPolygonContainment_boundary_error:
  "boundaryError lib b = Some e \<Longrightarrow> testPolygonContainment lib obs b = Inl e"
  by (auto simp: boundaryError_def testPolygonContainment_def split: sum.splits)

text \<open>
  C4. For a boundary whose payload decodes to a polygon and observations whose payloads
  all decode to points, \<open>testPolygonContainment\<close> returns a list of the length of
  the observation list (the empty list for no observations), and the result at each
  index carries the \<open>uid\<close> of the observation at that index.
\<close>

theorem containment_results_follow_observations:
  assumes "decodablePolygon lib boundary" and "list_all (decodablePoint lib) obs"
  shows "\<exists>rs. testPolygonContainment lib obs boundary = Inr rs
           \<and> length rs = length obs
           \<and> (\<forall>i<length obs. attestationId (rs ! i) = uid (obs ! i))"
proof -
  from assms(1) have "boundaryError lib boundary = None"
    by (simp add: decodablePolygon_iff)
  then obtain g where g: "testPolygonContainment lib obs boundary
            = mapWithIndex (\<lambda>a i. validateObservation lib i a g) 0 obs"
    using testPolygonContainment_boundary_ok [of lib boundary obs] by auto
  from assms(2) have "firstError (observationError lib) obs = None"
    by (simp add: firstError_None_iff list_all_iff decodablePoint_iff)
  then obtain rs where rs: "mapWithIndex (\<lambda>a i. validateObservation lib i a g) 0 obs = Inr rs"
    "map attestationId rs = map uid obs"
    using mapWithIndex_validate_results [of lib obs g 0] by auto
  from rs(2) have len: "length rs = length obs"
    by (rule map_eq_imp_length_eq)
  have "attestationId (rs ! i) = uid (obs ! i)" if "i < length obs" for i
  proof -
    from that len have "attestationId (rs ! i) = map attestationId rs ! i" by simp
    also have "\<dots> = map uid obs ! i" by (simp only: rs(2))
    also from that have "\<dots> = uid (obs ! i)" by simp
    finally show ?thesis .
  qed
  with g rs(1) len show ?thesis by simp
qed

theorem containment_results_follow_observations_witness:
  "decodablePolygon scenarioLib (convertRawAttestationToData boundaryLOC)
   \<and> list_all (decodablePoint scenarioLib) (map convertRawAttestationToData [obsBBB, obsCCC])
   \<and> list_all (decodablePoint scenarioLib) []
   \<and> testPolygonContainment scenarioLib (map convertRawAttestationToData [obsBBB, obsCCC])
        (convertRawAttestationToData boundaryLOC)
      = Inr [\<lparr>attestationId = ''0xBBB'', location = \<lparr>coordinates = [(5, 5)]\<rparr>,
               isContainedInPolygon = True\<rparr>,
             \<lparr>attestationId = ''0xCCC'', location = \<lparr>coordinates = [(50, 50)]\<rparr>,
               isContainedInPolygon = False\<rparr>]
   \<and> testPolygonContainment scenarioLib [] (convertRawAttestationToData boundaryLOC) = Inr []"
proof -
  have b: "decodablePolygon scenarioLib (convertRawAttestationToData boundaryLOC)"
    by (simp add: decodablePolygon_def scenarioLib_def convertRawAttestationToData_def
          boundaryLOC_def)
  have o: "list_all (decodablePoint scenarioLib) (map convertRawAttestationToData [obsBBB, obsCCC])"
    by (simp add: decodablePoint_def scenarioLib_def convertRawAttestationToData_def
          obsBBB_def obsCCC_def)
  have n: "list_all (decodablePoint scenarioLib) []" by simp
  have v: "testPolygonContainment scenarioLib (map convertRawAttestationToData [obsBBB, obsCCC])
        (convertRawAttestationToData boundaryLOC)
      = Inr [\<lparr>attestationId = ''0xBBB'', location = \<lparr>coordinates = [(5, 5)]\<rparr>,
               isContainedInPolygon = True\<rparr>,
             \<lparr>attestationId = ''0xCCC'', location = \<lparr>coordinates = [(50, 50)]\<rparr>,
               isContainedInPolygon = False\<rparr>]"
    by (simp add: testPolygonContainment_def validateObservation_def scenarioLib_def
          convertRawAttestationToData_def boundaryLOC_def obsBBB_def obsCCC_def)
  show ?thesis
    using b o n v
      containment_results_follow_observations [OF b o]
      containment_results_follow_observations [OF b n]
    by simp
qed

text \<open>
  C5. If some observation's payload does not decode to a point,
  \<open>testPolygonContainment\<close> returns no list at all: it fails, and the error is the
  first one in evaluation order, that is the boundary's own error if the boundary fails,
  and otherwise the error of the first observation that fails.
\<close>

theorem observation_decode_error_aborts:
  assumes "\<not> list_all (decodablePoint lib) obs"
  shows "\<exists>e. testPolygonContainment lib obs boundary = Inl e
           \<and> (case boundaryError lib boundary of
                 Some e' \<Rightarrow> e = e'
               | None \<Rightarrow> firstError (observationError lib) obs = Some e)"
proof (cases "boundaryError lib boundary")
  case None
  then obtain g where g: "testPolygonContainment lib obs boundary
            = mapWithIndex (\<lambda>a i. validateObservation lib i a g) 0 obs"
    using testPolygonContainment_boundary_ok [of lib boundary obs] by auto
  from assms have "firstError (observationError lib) obs \<noteq> None"
    by (simp add: firstError_None_iff list_all_iff decodablePoint_iff)
  then obtain e where e: "firstError (observationError lib) obs = Some e" by blast
  then have "mapWithIndex (\<lambda>a i. validateObservation lib i a g) 0 obs = Inl e"
    by (rule mapWithIndex_validate_error)
  with g e None show ?thesis by simp
next
  case (Some e')
  then show ?thesis by (simp add: testPolygonContainment_boundary_error)
qed

theorem observation_decode_error_aborts_witness:
  "\<not> list_all (decodablePoint scenarioLib)
        (map convertRawAttestationToData [obsBBB, obsBroken, obsCCC])
   \<and> testPolygonContainment scenarioLib
        (map convertRawAttestationToData [obsBBB, obsBroken, obsCCC])
        (convertRawAttestationToData boundaryLOC) = Inl ''PayloadDecodeError''"
proof -
  have h: "\<not> list_all (decodablePoint scenarioLib)
        (map convertRawAttestationToData [obsBBB, obsBroken, obsCCC])"
    by (simp add: decodablePoint_def scenarioLib_def convertRawAttestationToData_def
          obsBBB_def obsCCC_def obsBroken_def)
  have b: "boundaryError scenarioLib (convertRawAttestationToData boundaryLOC) = None"
    by (simp add: boundaryError_def scenarioLib_def convertRawAttestationToData_def
          boundaryLOC_def)
  have f: "firstError (observationError scenarioLib)
             (map convertRawAttestationToData [obsBBB, obsBroken, obsCCC])
           = Some ''PayloadDecodeError''"
    by (simp add: observationError_def scenarioLib_def convertRawAttestationToData_def
          obsBBB_def obsCCC_def obsBroken_def)
  show ?thesis
    using h b f
      observation_decode_error_aborts [OF h, of "convertRawAttestationToData boundaryLOC"]
    by simp
qed

section \<open>Facts about the two phases of the resolver\<close>

lemma getEndpoint_nonempty: "getEndpoint chainId = Some ep \<Longrightarrow> ep \<noteq> []"
  by (auto simp: getEndpoint_def split: if_splits)

lemma convert_same:
  "convertGraphQLResponseToAttestationData = convertRawAttestationToData"
  by (rule ext)
    (simp add: convertGraphQLResponseToAttestationData_def convertRawAttestationToData_def)

lemma fetchLocationData2_eq: "fetchLocationData2 = fetchLocationData1"
  by (intro ext) (unfold fetchLocationData2_def fetchLocationData1_def convert_same, rule refl)

lemma fetchLocationData1_falsy:
  "\<not> truthy l \<Longrightarrow> fetchLocationData1 net ep l t = (Inr None, t)"
  by (cases l) (simp_all add: fetchLocationData1_def)

lemma fetchLocationData1_absent:
  assumes "u \<noteq> []"
    and "boundaryAbsent (net (length (sent t)) (Post ep GetLocationAttestation u))"
  shows "fetchLocationData1 net ep (Some u) t
           = (Inr None, t\<lparr>sent := sent t @ [Post ep GetLocationAttestation u]\<rparr>)"
proof (cases "net (length (sent t)) (Post ep GetLocationAttestation u)")
  case FetchRejects
  with assms(2) show ?thesis by simp
next
  case (Response rok rstatus rbody)
  with assms show ?thesis
    by (auto simp: fetchLocationData1_def fetchLocationAttestation_def
          executeGraphQLQuery_def fetch_def split: JsonBody.splits option.splits)
qed

lemma fetchLocationData1_decoded:
  "decoded (snd (fetchLocationData1 net ep l t)) = decoded t"
proof (cases "truthy l")
  case False
  then show ?thesis by (simp add: fetchLocationData1_falsy)
next
  case True
  then obtain u where u: "l = Some u" "u \<noteq> []" by (cases l) auto
  have "decoded (snd (fetchLocationAttestation net ep u t)) = decoded t"
    using executeGraphQLQuery_decoded [of net ep GetLocationAttestation u False t]
    by (auto simp: fetchLocationAttestation_def split: prod.splits sum.splits option.splits)
  with u show ?thesis
    by (auto simp: fetchLocationData1_def split: prod.splits sum.splits option.splits)
qed

lemma fetchInitialAttestations_data:
  "net (length (sent t)) (Post ep GetAttestation a) = Response True st (JsonObject (Some d)) \<Longrightarrow>
     fetchInitialAttestations net ep a t
       = (Inr (Some d), t\<lparr>sent := sent t @ [Post ep GetAttestation a]\<rparr>)"
  by (simp add: fetchInitialAttestations_def executeGraphQLQuery_def fetch_def)

lemma fetchInitialAttestations_Inr:
  assumes "fetchInitialAttestations net ep a t = (Inr x, t1)"
  shows "\<exists>st d. x = Some d
           \<and> net (length (sent t)) (Post ep GetAttestation a)
               = Response True st (JsonObject (Some d))
           \<and> t1 = t\<lparr>sent := sent t @ [Post ep GetAttestation a]\<rparr>"
  using assms
  by (auto simp: fetchInitialAttestations_def executeGraphQLQuery_def fetch_def
        split: FetchOutcome.splits JsonBody.splits if_splits)

lemma fetchMainAttestations1_data:
  assumes "net (length (sent t)) (Post ep GetAttestation a)
             = Response True st (JsonObject (Some d))"
  shows "fetchMainAttestations1 dec net ep a t =
     (let t1 = t\<lparr>sent := sent t @ [Post ep GetAttestation a]\<rparr>;
          l = (case d_attestation d of
                 None \<Rightarrow> None
               | Some root \<Rightarrow>
                   (case dec (r_decodedDataJson root) of
                      None \<Rightarrow> None
                    | Some dd \<Rightarrow> locationUID dd));
          t2 = (case d_attestation d of
                  None \<Rightarrow> t1
                | Some root \<Rightarrow> t1\<lparr>decoded := decoded t1 @ [r_decodedDataJson root]\<rparr>);
          refs = (case d_attestations d of None \<Rightarrow> [] | Some xs \<Rightarrow> xs)
      in if refs = [] then (Inl (NoAttestationsFound a), t2)
         else (Inr (map convertRawAttestationToData refs, l), t2))"
  using fetchInitialAttestations_data [of net t ep a st d] assms
  by (simp add: fetchMainAttestations1_def extractDecodedDataFromRaw_def Let_def
        split: option.splits)

lemma fetchMainAttestations2_data:
  assumes "net (length (sent t)) (Post ep GetAttestation a)
             = Response True st (JsonObject (Some d))"
  shows "fetchMainAttestations2 dec net ep a t =
     (let t1 = t\<lparr>sent := sent t @ [Post ep GetAttestation a]\<rparr>;
          refs = (case d_attestations d of None \<Rightarrow> [] | Some xs \<Rightarrow> xs)
      in case d_attestation d of
           None \<Rightarrow> (Inl NoAttestationFound, t1)
         | Some root \<Rightarrow>
             if truthy (r_decodedDataJson root) then
               (case dec (r_decodedDataJson root) of
                  None \<Rightarrow>
                    (Inl (NoLocationUIDFound (r_id root)),
                     t1\<lparr>decoded := decoded t1 @ [r_decodedDataJson root]\<rparr>)
                | Some dd \<Rightarrow>
                    if refs = []
                    then (Inl (NoAttestationsReferencing a),
                          t1\<lparr>decoded := decoded t1 @ [r_decodedDataJson root]\<rparr>)
                    else (Inr (map convertRawAttestationToData refs,
                               if truthy (locationUID dd) then locationUID dd else None),
                          t1\<lparr>decoded := decoded t1 @ [r_decodedDataJson root]\<rparr>))
             else (Inl (NoLocationUIDFound (r_id root)), t1))"
  using fetchInitialAttestations_data [of net t ep a st d] assms
  by (simp add: fetchMainAttestations2_def extractLocationUID_def
        extractDecodedDataFromRaw_def Let_def convert_same
        split: option.splits)

lemma fetchMainAttestations1_no_data:
  assumes "\<nexists>st d. net (length (sent t)) (Post ep GetAttestation a)
             = Response True st (JsonObject (Some d))"
  shows "\<exists>e. fetchMainAttestations1 dec net ep a t
               = (Inl e, t\<lparr>sent := sent t @ [Post ep GetAttestation a]\<rparr>)
           \<and> fetchMainAttestations2 dec net ep a t
               = (Inl e, t\<lparr>sent := sent t @ [Post ep GetAttestation a]\<rparr>)"
proof (cases "fetchInitialAttestations net ep a t")
  case (Pair x t1)
  have t1: "t1 = t\<lparr>sent := sent t @ [Post ep GetAttestation a]\<rparr>"
    using Pair
    by (auto simp: fetchInitialAttestations_def executeGraphQLQuery_def fetch_def
        split: FetchOutcome.splits JsonBody.splits if_splits)
  show ?thesis
  proof (cases x)
    case (Inl e)
    with Pair t1 show ?thesis
      by (simp add: fetchMainAttestations1_def fetchMainAttestations2_def)
  next
    case (Inr y)
    with Pair assms fetchInitialAttestations_Inr [of net ep a t y t1] show ?thesis
      by auto
  qed
qed

lemma fetchAttestations1_endpoint:
  "getEndpoint chainId = Some ep \<Longrightarrow>
     fetchAttestations1 dec net chainId a t =
       (case fetchMainAttestations1 dec net ep a t of
          (Inl e, t1) \<Rightarrow> (Inl e, t1)
        | (Inr (atts, l), t1) \<Rightarrow>
            (case fetchLocationData1 net ep l t1 of
               (Inl e, t2) \<Rightarrow> (Inl e, t2)
             | (Inr la, t2) \<Rightarrow> (Inr \<lparr>attestations = atts, locationAttestation = la\<rparr>, t2)))"
  using getEndpoint_nonempty [of chainId ep] by (simp add: fetchAttestations1_def)

lemma fetchAttestations2_endpoint:
  "getEndpoint chainId = Some ep \<Longrightarrow>
     fetchAttestations2 dec net chainId a t =
       (case fetchMainAttestations2 dec net ep a t of
          (Inl e, t1) \<Rightarrow> (Inl e, t1)
        | (Inr (atts, l), t1) \<Rightarrow>
            (case fetchLocationData1 net ep l t1 of
               (Inl e, t2) \<Rightarrow> (Inl e, t2)
             | (Inr la, t2) \<Rightarrow> (Inr \<lparr>attestations = atts, locationAttestation = la\<rparr>, t2)))"
  using getEndpoint_nonempty [of chainId ep]
  unfolding fetchAttestations2_def fetchLocationData2_eq by simp

lemma fetchLocationData1_or_null:
  "fetchLocationData1 net ep (if truthy l then l else None) t = fetchLocationData1 net ep l t"
  by (cases "truthy l") (simp_all add: fetchLocationData1_falsy)

lemma fetchAttestations_success:
  assumes "(case m of
              (Inl e, t1) \<Rightarrow> (Inl e, t1)
            | (Inr (atts, l), t1) \<Rightarrow>
                (case fetchLocationData1 net ep l t1 of
                   (Inl e, t2) \<Rightarrow> (Inl e, t2)
                 | (Inr la, t2) \<Rightarrow> (Inr \<lparr>attestations = atts, locationAttestation = la\<rparr>, t2)))
           = (Inr r, t')"
  shows "\<exists>l t1. m = (Inr (attestations r, l), t1) \<and> decoded t' = decoded t1"
proof -
  obtain x t1 where m: "m = (x, t1)" by (cases m)
  from assms m obtain atts l where x: "x = Inr (atts, l)"
    by (cases x) auto
  obtain y t2 where f: "fetchLocationData1 net ep l t1 = (y, t2)"
    by (cases "fetchLocationData1 net ep l t1")
  from assms m x f obtain la where y: "y = Inr la"
    by (cases y) auto
  from assms m x f y have "r = \<lparr>attestations = atts, locationAttestation = la\<rparr>" "t' = t2"
    by simp_all
  moreover from f have "decoded t2 = decoded t1"
    using fetchLocationData1_decoded [of net ep l t1] by simp
  ultimately show ?thesis using m x by simp
qed

lemma fetchMainAttestations_success_data:
  assumes "fetchMainAttestations1 dec net ep a t = (Inr p, t1)
         \<or> fetchMainAttestations2 dec net ep a t = (Inr p, t1)"
  shows "\<exists>st d. net (length (sent t)) (Post ep GetAttestation a)
                   = Response True st (JsonObject (Some d))"
proof (rule ccontr)
  assume "\<not> ?thesis"
  then have "\<nexists>st d. net (length (sent t)) (Post ep GetAttestation a)
                   = Response True st (JsonObject (Some d))"
    by simp
  from fetchMainAttestations1_no_data [where net = net and t = t and dec = dec, OF this] assms
  show False by auto
qed

lemma getEndpoint_success1:
  "fetchAttestations1 dec net chainId a t = (Inr r, t') \<Longrightarrow> \<exists>ep. getEndpoint chainId = Some ep"
  by (cases "getEndpoint chainId") (simp_all add: fetchAttestations1_def)

lemma getEndpoint_success2:
  "fetchAttestations2 dec net chainId a t = (Inr r, t') \<Longrightarrow> \<exists>ep. getEndpoint chainId = Some ep"
  by (cases "getEndpoint chainId") (simp_all add: fetchAttestations2_def)

lemma converted_root_not_among:
  assumes "r_refUID root \<noteq> a" and "list_all (\<lambda>x. r_refUID x = a) refs"
  shows "convertRawAttestationToData root \<notin> set (map convertRawAttestationToData refs)"
proof
  assume "convertRawAttestationToData root \<in> set (map convertRawAttestationToData refs)"
  then obtain x where x: "x \<in> set refs"
    "convertRawAttestationToData root = convertRawAttestationToData x"
    by auto
  from x(2) have "refUID (convertRawAttestationToData root) = refUID (convertRawAttestationToData x)"
    by simp
  then have "r_refUID root = r_refUID x"
    by (simp add: convertRawAttestationToData_def)
  with x(1) assms show False by (simp add: list_all_iff)
qed

lemmas client_defs =
  fetchAttestations1_def fetchAttestations2_def getEndpoint_def
  fetchMainAttestations1_def fetchMainAttestations2_def extractLocationUID_def
  fetchInitialAttestations_def executeGraphQLQuery_def fetch_def
  fetchLocationData1_def fetchLocationData2_def fetchLocationAttestation_def
  extractDecodedDataFromRaw_def convertRawAttestationToData_def
  convertGraphQLResponseToAttestationData_def emptyTrace_def

lemmas scenario_defs =
  storeWith_def scenarioDecoder_def rootAAA_def rootNoLocation_def obsBBB_def obsCCC_def
  boundaryLOC_def

section \<open>The lenient boundary lookup\<close>

text \<open>
  C6. When the first phase has returned the referencing attestations and a non-empty
  \<open>locationUID\<close>, and the store answers the single lookup with a response that is not
  ok, or with an ok response whose body has no data or no record, \<open>fetchAttestations\<close>
  of either draft does not fail: it returns the attestations with
  \<open>locationAttestation\<close> null, after exactly that one more request. (A rejected
  \<open>fetch\<close> and an ok response whose body is not JSON, or is the JSON value null, are
  not such responses; they raise.)
\<close>

theorem lenient_boundary_lookup:
  assumes "getEndpoint chainId = Some ep" and "u \<noteq> []"
  shows "(fetchMainAttestations1 dec net ep rootId t = (Inr (atts, Some u), t1)
          \<and> boundaryAbsent (net (length (sent t1)) (Post ep GetLocationAttestation u))
          \<longrightarrow> fetchAttestations1 dec net chainId rootId t
                = (Inr \<lparr>attestations = atts, locationAttestation = None\<rparr>,
                   t1\<lparr>sent := sent t1 @ [Post ep GetLocationAttestation u]\<rparr>))
       \<and> (fetchMainAttestations2 dec net ep rootId t = (Inr (atts, Some u), t1)
          \<and> boundaryAbsent (net (length (sent t1)) (Post ep GetLocationAttestation u))
          \<longrightarrow> fetchAttestations2 dec net chainId rootId t
                = (Inr \<lparr>attestations = atts, locationAttestation = None\<rparr>,
                   t1\<lparr>sent := sent t1 @ [Post ep GetLocationAttestation u]\<rparr>))"
proof -
  from assms(1) have ep: "ep \<noteq> []" by (rule getEndpoint_nonempty)
  show ?thesis
  proof (intro conjI impI)
    assume a: "fetchMainAttestations1 dec net ep rootId t = (Inr (atts, Some u), t1)
          \<and> boundaryAbsent (net (length (sent t1)) (Post ep GetLocationAttestation u))"
    then have "fetchLocationData1 net ep (Some u) t1
           = (Inr None, t1\<lparr>sent := sent t1 @ [Post ep GetLocationAttestation u]\<rparr>)"
      using assms(2) by (simp add: fetchLocationData1_absent)
    with a assms(1) ep show "fetchAttestations1 dec net chainId rootId t
                = (Inr \<lparr>attestations = atts, locationAttestation = None\<rparr>,
                   t1\<lparr>sent := sent t1 @ [Post ep GetLocationAttestation u]\<rparr>)"
      by (simp add: fetchAttestations1_def)
  next
    assume a: "fetchMainAttestations2 dec net ep rootId t = (Inr (atts, Some u), t1)
          \<and> boundaryAbsent (net (length (sent t1)) (Post ep GetLocationAttestation u))"
    then have "fetchLocationData2 net ep (Some u) t1
           = (Inr None, t1\<lparr>sent := sent t1 @ [Post ep GetLocationAttestation u]\<rparr>)"
      using assms(2) by (simp add: fetchLocationData2_eq fetchLocationData1_absent)
    with a assms(1) ep show "fetchAttestations2 dec net chainId rootId t
                = (Inr \<lparr>attestations = atts, locationAttestation = None\<rparr>,
                   t1\<lparr>sent := sent t1 @ [Post ep GetLocationAttestation u]\<rparr>)"
      by (simp add: fetchAttestations2_def)
  qed
qed

theorem lenient_boundary_lookup_witness:
  "fetchAttestations1 scenarioDecoder
     (storeWith \<lparr>d_attestation = Some rootAAA, d_attestations = Some [obsBBB, obsCCC]\<rparr>
        (Response False 404 JsonInvalid))
     1 ''0xAAA'' emptyTrace
   = (Inr \<lparr>attestations = map convertRawAttestationToData [obsBBB, obsCCC],
           locationAttestation = None\<rparr>,
      \<lparr>sent = [Post ''https://mainnet.easscan.org/graphql'' GetAttestation ''0xAAA'',
               Post ''https://mainnet.easscan.org/graphql'' GetLocationAttestation ''0xLOC''],
       decoded = [Some ''locationUID=0xLOC'']\<rparr>)
   \<and> fetchAttestations2 scenarioDecoder
     (storeWith \<lparr>d_attestation = Some rootAAA, d_attestations = Some [obsBBB, obsCCC]\<rparr>
        (Response True 200
           (JsonObject (Some \<lparr>d_attestation = None, d_attestations = None\<rparr>))))
     1 ''0xAAA'' emptyTrace
   = (Inr \<lparr>attestations = map convertRawAttestationToData [obsBBB, obsCCC],
           locationAttestation = None\<rparr>,
      \<lparr>sent = [Post ''https://mainnet.easscan.org/graphql'' GetAttestation ''0xAAA'',
               Post ''https://mainnet.easscan.org/graphql'' GetLocationAttestation ''0xLOC''],
       decoded = [Some ''locationUID=0xLOC'']\<rparr>)"
proof -
  let ?d = "\<lparr>d_attestation = Some rootAAA, d_attestations = Some [obsBBB, obsCCC]\<rparr>"
  let ?n1 = "storeWith ?d (Response False 404 JsonInvalid)"
  let ?n2 = "storeWith ?d (Response True 200
           (JsonObject (Some \<lparr>d_attestation = None, d_attestations = None\<rparr>)))"
  let ?ep = "''https://mainnet.easscan.org/graphql''"
  let ?t1 = "\<lparr>sent = [Post ?ep GetAttestation ''0xAAA''],
             decoded = [Some ''locationUID=0xLOC'']\<rparr>"
  let ?atts = "map convertRawAttestationToData [obsBBB, obsCCC]"
  have ep: "getEndpoint 1 = Some ?ep" by (simp add: getEndpoint_def)
  have u: "''0xLOC'' \<noteq> []" by simp
  have m1: "fetchMainAttestations1 scenarioDecoder ?n1 ?ep ''0xAAA'' emptyTrace
              = (Inr (?atts, Some ''0xLOC''), ?t1)"
    by (simp add: client_defs scenario_defs)
  have m2: "fetchMainAttestations2 scenarioDecoder ?n2 ?ep ''0xAAA'' emptyTrace
              = (Inr (?atts, Some ''0xLOC''), ?t1)"
    by (simp add: client_defs scenario_defs)
  have a1: "boundaryAbsent (?n1 (length (sent ?t1)) (Post ?ep GetLocationAttestation ''0xLOC''))"
    by (simp add: storeWith_def)
  have a2: "boundaryAbsent (?n2 (length (sent ?t1)) (Post ?ep GetLocationAttestation ''0xLOC''))"
    by (simp add: storeWith_def)
  show ?thesis
    using m1 a1 m2 a2
      lenient_boundary_lookup
        [where net = ?n1 and dec = scenarioDecoder and t = emptyTrace and ?t1.0 = ?t1
           and atts = ?atts and rootId = "''0xAAA''", OF ep u]
      lenient_boundary_lookup
        [where net = ?n2 and dec = scenarioDecoder and t = emptyTrace and ?t1.0 = ?t1
           and atts = ?atts and rootId = "''0xAAA''", OF ep u]
    by simp
qed

section \<open>A root without a location reference\<close>

text \<open>
  C1, as the code has it. The store returns the root record. In the second draft, if the
  root's payload is empty or the decoder throws on it, \<open>fetchAttestations\<close> fails with
  the error "No locationUID found for attestation ...", whether or not referencing
  attestations exist, and only the combined query has been sent. In the first draft a
  missing reference (the decoder throws, or the decoded \<open>locationUID\<close> is falsy) is
  tolerated: with at least one referencing attestation the call returns the normalized
  referencing attestations with \<open>locationAttestation\<close> null, and sends no second
  request.
\<close>

theorem missing_location_reference:
  assumes "getEndpoint chainId = Some ep"
    and "net (length (sent t)) (Post ep GetAttestation rootId)
           = Response True st (JsonObject (Some d))"
    and "d_attestation d = Some root"
  shows "(\<not> truthy (r_decodedDataJson root) \<or> dec (r_decodedDataJson root) = None
          \<longrightarrow> fst (fetchAttestations2 dec net chainId rootId t)
                = Inl (NoLocationUIDFound (r_id root))
              \<and> sent (snd (fetchAttestations2 dec net chainId rootId t))
                = sent t @ [Post ep GetAttestation rootId])
       \<and> ((dec (r_decodedDataJson root) = None
            \<or> (\<exists>dd. dec (r_decodedDataJson root) = Some dd \<and> \<not> truthy (locationUID dd)))
           \<and> d_attestations d = Some refs \<and> refs \<noteq> []
          \<longrightarrow> fetchAttestations1 dec net chainId rootId t
                = (Inr \<lparr>attestations = map convertRawAttestationToData refs,
                        locationAttestation = None\<rparr>,
                   t\<lparr>sent := sent t @ [Post ep GetAttestation rootId],
                     decoded := decoded t @ [r_decodedDataJson root]\<rparr>))"
proof (intro conjI impI)
  assume bad: "\<not> truthy (r_decodedDataJson root) \<or> dec (r_decodedDataJson root) = None"
  have m: "fst (fetchMainAttestations2 dec net ep rootId t) = Inl (NoLocationUIDFound (r_id root))
         \<and> sent (snd (fetchMainAttestations2 dec net ep rootId t))
             = sent t @ [Post ep GetAttestation rootId]"
    using bad assms(3) by (auto simp: fetchMainAttestations2_data [where net = net and t = t, OF assms(2)] Let_def)
  from m show "fst (fetchAttestations2 dec net chainId rootId t)
                = Inl (NoLocationUIDFound (r_id root))"
    by (cases "fetchMainAttestations2 dec net ep rootId t")
       (simp add: fetchAttestations2_endpoint [OF assms(1)])
  from m show "sent (snd (fetchAttestations2 dec net chainId rootId t))
                = sent t @ [Post ep GetAttestation rootId]"
    by (cases "fetchMainAttestations2 dec net ep rootId t")
       (simp add: fetchAttestations2_endpoint [OF assms(1)])
next
  assume h: "(dec (r_decodedDataJson root) = None
            \<or> (\<exists>dd. dec (r_decodedDataJson root) = Some dd \<and> \<not> truthy (locationUID dd)))
           \<and> d_attestations d = Some refs \<and> refs \<noteq> []"
  then obtain l where l: "\<not> truthy l"
    and m: "fetchMainAttestations1 dec net ep rootId t
         = (Inr (map convertRawAttestationToData refs, l),
            t\<lparr>sent := sent t @ [Post ep GetAttestation rootId],
              decoded := decoded t @ [r_decodedDataJson root]\<rparr>)"
    using assms(3) by (auto simp: fetchMainAttestations1_data [where net = net and t = t, OF assms(2)] Let_def)
  then show "fetchAttestations1 dec net chainId rootId t
                = (Inr \<lparr>attestations = map convertRawAttestationToData refs,
                        locationAttestation = None\<rparr>,
                   t\<lparr>sent := sent t @ [Post ep GetAttestation rootId],
                     decoded := decoded t @ [r_decodedDataJson root]\<rparr>)"
    by (simp add: fetchAttestations1_endpoint [OF assms(1)] fetchLocationData1_falsy)
qed

theorem missing_location_reference_witness:
  "fst (fetchAttestations2 scenarioDecoder
          (storeWith \<lparr>d_attestation = Some rootNoLocation, d_attestations = Some [obsBBB, obsCCC]\<rparr>
             FetchRejects)
          1 ''0xAAA'' emptyTrace)
     = Inl (NoLocationUIDFound ''0xAAA'')
   \<and> sent (snd (fetchAttestations2 scenarioDecoder
          (storeWith \<lparr>d_attestation = Some rootNoLocation, d_attestations = Some [obsBBB, obsCCC]\<rparr>
             FetchRejects)
          1 ''0xAAA'' emptyTrace))
     = [Post ''https://mainnet.easscan.org/graphql'' GetAttestation ''0xAAA'']
   \<and> fetchAttestations1 scenarioDecoder
        (storeWith \<lparr>d_attestation = Some rootNoLocation, d_attestations = Some [obsBBB, obsCCC]\<rparr>
           FetchRejects)
        1 ''0xAAA'' emptyTrace
      = (Inr \<lparr>attestations = map convertRawAttestationToData [obsBBB, obsCCC],
              locationAttestation = None\<rparr>,
         \<lparr>sent = [Post ''https://mainnet.easscan.org/graphql'' GetAttestation ''0xAAA''],
          decoded = [Some ''garbage'']\<rparr>)"
proof -
  let ?d = "\<lparr>d_attestation = Some rootNoLocation, d_attestations = Some [obsBBB, obsCCC]\<rparr>"
  let ?net = "storeWith ?d FetchRejects"
  let ?ep = "''https://mainnet.easscan.org/graphql''"
  have ep: "getEndpoint 1 = Some ?ep" by (simp add: getEndpoint_def)
  have resp: "?net (length (sent emptyTrace)) (Post ?ep GetAttestation ''0xAAA'')
                = Response True 200 (JsonObject (Some ?d))"
    by (simp add: storeWith_def)
  have root: "d_attestation ?d = Some rootNoLocation" by simp
  have bad: "scenarioDecoder (r_decodedDataJson rootNoLocation) = None"
    by (simp add: scenarioDecoder_def rootNoLocation_def)
  have refs: "d_attestations ?d = Some [obsBBB, obsCCC]" "[obsBBB, obsCCC] \<noteq> []"
    by simp_all
  show ?thesis
    using bad refs
      missing_location_reference
        [where net = ?net and t = emptyTrace and dec = scenarioDecoder
           and refs = "[obsBBB, obsCCC]", OF ep resp root]
    by (simp add: emptyTrace_def rootNoLocation_def)
qed

text \<open>
  C1 as stated fails on the first draft: the root exists, its payload does not decode,
  two attestations reference it, and \<open>fetchAttestations\<close> returns a result.
\<close>

theorem missing_location_reference_counterexample:
  "d_attestation \<lparr>d_attestation = Some rootNoLocation, d_attestations = Some [obsBBB, obsCCC]\<rparr>
     = Some rootNoLocation
   \<and> scenarioDecoder (r_decodedDataJson rootNoLocation) = None
   \<and> fetchAttestations1 scenarioDecoder
        (storeWith \<lparr>d_attestation = Some rootNoLocation, d_attestations = Some [obsBBB, obsCCC]\<rparr>
           FetchRejects)
        1 ''0xAAA'' emptyTrace
      = (Inr \<lparr>attestations =
                [\<lparr>uid = ''0xBBB'', schemaId = ''0xS1'', refUID = ''0xAAA'',
                   data = Some ''point=5,5''\<rparr>,
                 \<lparr>uid = ''0xCCC'', schemaId = ''0xS1'', refUID = ''0xAAA'',
                   data = Some ''point=50,50''\<rparr>],
              locationAttestation = None\<rparr>,
         \<lparr>sent = [Post ''https://mainnet.easscan.org/graphql'' GetAttestation ''0xAAA''],
          decoded = [Some ''garbage'']\<rparr>)"
  by (simp add: client_defs scenario_defs)

section \<open>No referencing attestations\<close>

text \<open>
  C2, as the code has it. The combined query returns data whose list of referencing
  attestations is absent or empty. The first draft fails with "No attestations found for
  attestationId: ...", whether or not the root record is there. The second draft looks at
  the root first: it fails with "No attestation found ..." when the root is absent, with
  "No locationUID found ..." when the root's payload is empty or does not decode, and
  with "No attestations found referencing attestationId: ..." otherwise.
\<close>

theorem no_referencing_attestations:
  assumes "getEndpoint chainId = Some ep"
    and "net (length (sent t)) (Post ep GetAttestation rootId)
           = Response True st (JsonObject (Some d))"
    and "d_attestations d = None \<or> d_attestations d = Some []"
  shows "fst (fetchAttestations1 dec net chainId rootId t) = Inl (NoAttestationsFound rootId)
       \<and> fst (fetchAttestations2 dec net chainId rootId t)
           = (case d_attestation d of
                None \<Rightarrow> Inl NoAttestationFound
              | Some root \<Rightarrow>
                  if truthy (r_decodedDataJson root) \<and> dec (r_decodedDataJson root) \<noteq> None
                  then Inl (NoAttestationsReferencing rootId)
                  else Inl (NoLocationUIDFound (r_id root)))"
proof
  have "fst (fetchMainAttestations1 dec net ep rootId t) = Inl (NoAttestationsFound rootId)"
    using assms(3) by (auto simp: fetchMainAttestations1_data [where net = net and t = t, OF assms(2)] Let_def)
  then show "fst (fetchAttestations1 dec net chainId rootId t) = Inl (NoAttestationsFound rootId)"
    by (cases "fetchMainAttestations1 dec net ep rootId t")
       (simp add: fetchAttestations1_endpoint [OF assms(1)])
next
  have refs: "(case d_attestations d of None \<Rightarrow> [] | Some xs \<Rightarrow> xs) = []"
    using assms(3) by auto
  show "fst (fetchAttestations2 dec net chainId rootId t)
           = (case d_attestation d of
                None \<Rightarrow> Inl NoAttestationFound
              | Some root \<Rightarrow>
                  if truthy (r_decodedDataJson root) \<and> dec (r_decodedDataJson root) \<noteq> None
                  then Inl (NoAttestationsReferencing rootId)
                  else Inl (NoLocationUIDFound (r_id root)))"
  proof (cases "d_attestation d")
    case None
    then have "fst (fetchMainAttestations2 dec net ep rootId t) = Inl NoAttestationFound"
      by (simp add: fetchMainAttestations2_data [where net = net and t = t, OF assms(2)] Let_def)
    then have "fst (fetchAttestations2 dec net chainId rootId t) = Inl NoAttestationFound"
      by (cases "fetchMainAttestations2 dec net ep rootId t")
         (simp add: fetchAttestations2_endpoint [OF assms(1)])
    with None show ?thesis by simp
  next
    case (Some root)
    show ?thesis
    proof (cases "truthy (r_decodedDataJson root) \<and> dec (r_decodedDataJson root) \<noteq> None")
      case True
      with Some refs have
        "fst (fetchMainAttestations2 dec net ep rootId t) = Inl (NoAttestationsReferencing rootId)"
        by (auto simp: fetchMainAttestations2_data [where net = net and t = t, OF assms(2)]
              Let_def)
      then have "fst (fetchAttestations2 dec net chainId rootId t)
                   = Inl (NoAttestationsReferencing rootId)"
        by (cases "fetchMainAttestations2 dec net ep rootId t")
           (simp add: fetchAttestations2_endpoint [OF assms(1)])
      with Some True show ?thesis by simp
    next
      case False
      with Some have
        "fst (fetchMainAttestations2 dec net ep rootId t) = Inl (NoLocationUIDFound (r_id root))"
        by (auto simp: fetchMainAttestations2_data [where net = net and t = t, OF assms(2)]
              Let_def)
      then have "fst (fetchAttestations2 dec net chainId rootId t)
                   = Inl (NoLocationUIDFound (r_id root))"
        by (cases "fetchMainAttestations2 dec net ep rootId t")
           (simp add: fetchAttestations2_endpoint [OF assms(1)])
      with Some False show ?thesis by simp
    qed
  qed
qed

theorem no_referencing_attestations_witness:
  "fst (fetchAttestations1 scenarioDecoder
          (storeWith \<lparr>d_attestation = None, d_attestations = Some []\<rparr> FetchRejects)
          1 ''0xAAA'' emptyTrace)
     = Inl (NoAttestationsFound ''0xAAA'')
   \<and> fst (fetchAttestations2 scenarioDecoder
          (storeWith \<lparr>d_attestation = None, d_attestations = Some []\<rparr> FetchRejects)
          1 ''0xAAA'' emptyTrace)
     = Inl NoAttestationFound
   \<and> fst (fetchAttestations1 scenarioDecoder
          (storeWith \<lparr>d_attestation = Some rootAAA, d_attestations = Some []\<rparr> FetchRejects)
          1 ''0xAAA'' emptyTrace)
     = Inl (NoAttestationsFound ''0xAAA'')
   \<and> fst (fetchAttestations2 scenarioDecoder
          (storeWith \<lparr>d_attestation = Some rootAAA, d_attestations = Some []\<rparr> FetchRejects)
          1 ''0xAAA'' emptyTrace)
     = Inl (NoAttestationsReferencing ''0xAAA'')"
proof -
  let ?d0 = "\<lparr>d_attestation = None, d_attestations = Some []\<rparr>"
  let ?d1 = "\<lparr>d_attestation = Some rootAAA, d_attestations = Some []\<rparr>"
  let ?ep = "''https://mainnet.easscan.org/graphql''"
  have ep: "getEndpoint 1 = Some ?ep" by (simp add: getEndpoint_def)
  have r0: "storeWith ?d0 FetchRejects (length (sent emptyTrace)) (Post ?ep GetAttestation ''0xAAA'')
              = Response True 200 (JsonObject (Some ?d0))"
    by (simp add: storeWith_def)
  have r1: "storeWith ?d1 FetchRejects (length (sent emptyTrace)) (Post ?ep GetAttestation ''0xAAA'')
              = Response True 200 (JsonObject (Some ?d1))"
    by (simp add: storeWith_def)
  have e0: "d_attestations ?d0 = None \<or> d_attestations ?d0 = Some []" by simp
  have e1: "d_attestations ?d1 = None \<or> d_attestations ?d1 = Some []" by simp
  show ?thesis
    using
      no_referencing_attestations
        [where net = "storeWith ?d0 FetchRejects" and t = emptyTrace and dec = scenarioDecoder,
         OF ep r0 e0]
      no_referencing_attestations
        [where net = "storeWith ?d1 FetchRejects" and t = emptyTrace and dec = scenarioDecoder,
         OF ep r1 e1]
    by (simp add: scenarioDecoder_def rootAAA_def)
qed

text \<open>
  C2 as stated fails on the second draft: with no root record and an empty list of
  referencing attestations the error is the one for the missing root.
\<close>

theorem no_referencing_attestations_counterexample:
  "d_attestations \<lparr>d_attestation = None, d_attestations = Some []\<rparr> = Some []
   \<and> fetchAttestations2 scenarioDecoder
        (storeWith \<lparr>d_attestation = None, d_attestations = Some []\<rparr> FetchRejects)
        1 ''0xAAA'' emptyTrace
      = (Inl NoAttestationFound,
         \<lparr>sent = [Post ''https://mainnet.easscan.org/graphql'' GetAttestation ''0xAAA''],
          decoded = []\<rparr>)"
  by (simp add: client_defs scenario_defs)

section \<open>The two drafts compared\<close>

text \<open>
  C3, as the code has it. Whenever the root record is usable (the chain is unsupported,
  or the combined query fails, or the root is there with a non-empty payload that
  decodes), the two drafts send the same requests, hand the same payloads to the decoder
  and return the same result or the same error; the one exception is the empty list of
  referencing attestations, where both fail after the same effects, each with its own
  wording of "No attestations found ...".
\<close>

theorem drafts_agree_on_usable_root:
  assumes "rootUsable dec net chainId rootId t"
  shows "fetchAttestations2 dec net chainId rootId t = fetchAttestations1 dec net chainId rootId t
       \<or> (\<exists>t'. fetchAttestations1 dec net chainId rootId t = (Inl (NoAttestationsFound rootId), t')
              \<and> fetchAttestations2 dec net chainId rootId t
                  = (Inl (NoAttestationsReferencing rootId), t'))"
proof (cases "getEndpoint chainId")
  case None
  then show ?thesis by (simp add: fetchAttestations1_def fetchAttestations2_def)
next
  case (Some ep)
  show ?thesis
  proof (cases "\<exists>st d. net (length (sent t)) (Post ep GetAttestation rootId)
                         = Response True st (JsonObject (Some d))")
    case False
    then obtain e where
      "fetchMainAttestations1 dec net ep rootId t
         = (Inl e, t\<lparr>sent := sent t @ [Post ep GetAttestation rootId]\<rparr>)"
      "fetchMainAttestations2 dec net ep rootId t
         = (Inl e, t\<lparr>sent := sent t @ [Post ep GetAttestation rootId]\<rparr>)"
      using fetchMainAttestations1_no_data [of net t ep rootId dec] by auto
    then show ?thesis
      by (simp add: fetchAttestations1_endpoint [OF Some] fetchAttestations2_endpoint [OF Some])
  next
    case True
    then obtain st d where resp: "net (length (sent t)) (Post ep GetAttestation rootId)
                         = Response True st (JsonObject (Some d))"
      by blast
    with assms Some obtain root dd where root: "d_attestation d = Some root"
      "truthy (r_decodedDataJson root)" "dec (r_decodedDataJson root) = Some dd"
      by (auto simp: rootUsable_def split: option.splits)
    show ?thesis
    proof (cases "(case d_attestations d of None \<Rightarrow> [] | Some xs \<Rightarrow> xs) = []")
      case True
      with root have
        "fetchMainAttestations1 dec net ep rootId t
           = (Inl (NoAttestationsFound rootId),
              t\<lparr>sent := sent t @ [Post ep GetAttestation rootId],
                decoded := decoded t @ [r_decodedDataJson root]\<rparr>)"
        "fetchMainAttestations2 dec net ep rootId t
           = (Inl (NoAttestationsReferencing rootId),
              t\<lparr>sent := sent t @ [Post ep GetAttestation rootId],
                decoded := decoded t @ [r_decodedDataJson root]\<rparr>)"
        by (simp_all add: fetchMainAttestations1_data [where net = net and t = t, OF resp]
              fetchMainAttestations2_data [where net = net and t = t, OF resp] Let_def)
      then show ?thesis
        by (simp add: fetchAttestations1_endpoint [OF Some] fetchAttestations2_endpoint [OF Some])
    next
      case False
      with root obtain atts t2 where
        "fetchMainAttestations1 dec net ep rootId t = (Inr (atts, locationUID dd), t2)"
        "fetchMainAttestations2 dec net ep rootId t
           = (Inr (atts, if truthy (locationUID dd) then locationUID dd else None), t2)"
        by (simp add: fetchMainAttestations1_data [where net = net and t = t, OF resp]
              fetchMainAttestations2_data [where net = net and t = t, OF resp] Let_def)
      then have "fetchAttestations2 dec net chainId rootId t
                   = fetchAttestations1 dec net chainId rootId t"
        by (simp add: fetchAttestations1_endpoint [OF Some] fetchAttestations2_endpoint [OF Some]
              fetchLocationData1_or_null)
      then show ?thesis ..
    qed
  qed
qed

theorem drafts_agree_on_usable_root_witness:
  "rootUsable scenarioDecoder
     (storeWith \<lparr>d_attestation = Some rootAAA, d_attestations = Some [obsBBB, obsCCC]\<rparr>
        (Response True 200
           (JsonObject (Some \<lparr>d_attestation = Some boundaryLOC, d_attestations = None\<rparr>))))
     1 ''0xAAA'' emptyTrace
   \<and> fetchAttestations2 scenarioDecoder
     (storeWith \<lparr>d_attestation = Some rootAAA, d_attestations = Some [obsBBB, obsCCC]\<rparr>
        (Response True 200
           (JsonObject (Some \<lparr>d_attestation = Some boundaryLOC, d_attestations = None\<rparr>))))
     1 ''0xAAA'' emptyTrace
   = fetchAttestations1 scenarioDecoder
     (storeWith \<lparr>d_attestation = Some rootAAA, d_attestations = Some [obsBBB, obsCCC]\<rparr>
        (Response True 200
           (JsonObject (Some \<lparr>d_attestation = Some boundaryLOC, d_attestations = None\<rparr>))))
     1 ''0xAAA'' emptyTrace
   \<and> fst (fetchAttestations1 scenarioDecoder
     (storeWith \<lparr>d_attestation = Some rootAAA, d_attestations = Some [obsBBB, obsCCC]\<rparr>
        (Response True 200
           (JsonObject (Some \<lparr>d_attestation = Some boundaryLOC, d_attestations = None\<rparr>))))
     1 ''0xAAA'' emptyTrace)
   = Inr \<lparr>attestations = map convertRawAttestationToData [obsBBB, obsCCC],
          locationAttestation = Some (convertRawAttestationToData boundaryLOC)\<rparr>"
proof -
  let ?net = "storeWith \<lparr>d_attestation = Some rootAAA, d_attestations = Some [obsBBB, obsCCC]\<rparr>
        (Response True 200
           (JsonObject (Some \<lparr>d_attestation = Some boundaryLOC, d_attestations = None\<rparr>)))"
  have u: "rootUsable scenarioDecoder ?net 1 ''0xAAA'' emptyTrace"
    by (simp add: rootUsable_def getEndpoint_def emptyTrace_def scenario_defs)
  have v: "fst (fetchAttestations1 scenarioDecoder ?net 1 ''0xAAA'' emptyTrace)
   = Inr \<lparr>attestations = map convertRawAttestationToData [obsBBB, obsCCC],
          locationAttestation = Some (convertRawAttestationToData boundaryLOC)\<rparr>"
    by (simp add: client_defs scenario_defs)
  show ?thesis
    using u v drafts_agree_on_usable_root [OF u] by auto
qed

text \<open>
  C3 as stated fails: with no root record and one referencing attestation the first draft
  returns a result and the second fails.
\<close>

theorem drafts_disagree_counterexample:
  "fetchAttestations1 scenarioDecoder
     (storeWith \<lparr>d_attestation = None, d_attestations = Some [obsBBB]\<rparr> FetchRejects)
     1 ''0xAAA'' emptyTrace
   = (Inr \<lparr>attestations =
             [\<lparr>uid = ''0xBBB'', schemaId = ''0xS1'', refUID = ''0xAAA'',
                data = Some ''point=5,5''\<rparr>],
           locationAttestation = None\<rparr>,
      \<lparr>sent = [Post ''https://mainnet.easscan.org/graphql'' GetAttestation ''0xAAA''],
       decoded = []\<rparr>)
   \<and> fetchAttestations2 scenarioDecoder
     (storeWith \<lparr>d_attestation = None, d_attestations = Some [obsBBB]\<rparr> FetchRejects)
     1 ''0xAAA'' emptyTrace
   = (Inl NoAttestationFound,
      \<lparr>sent = [Post ''https://mainnet.easscan.org/graphql'' GetAttestation ''0xAAA''],
       decoded = []\<rparr>)"
  by (simp add: client_defs scenario_defs)

section \<open>The returned attestations\<close>

text \<open>
  C7. Whenever \<open>fetchAttestations\<close> of either draft returns a result, the combined
  query was answered with data, and the returned list is the list of referencing
  attestations of that answer, each normalized, in the store's order: nothing is added
  to it, so the root record is in it only if the store lists it among the referencing
  attestations. With a store that lists only attestations whose \<open>refUID\<close> is the root
  identifier, and a root that does not reference itself, the normalized root is not in the
  list. The decoder is called at most once, on the root's payload; no payload of a
  referencing attestation is handed to it.
\<close>

theorem attestations_are_the_referencing_records:
  assumes "fetchAttestations1 dec net chainId rootId t = (Inr r, t')
         \<or> fetchAttestations2 dec net chainId rootId t = (Inr r, t')"
  shows "\<exists>ep st d refs.
           getEndpoint chainId = Some ep
         \<and> net (length (sent t)) (Post ep GetAttestation rootId)
             = Response True st (JsonObject (Some d))
         \<and> d_attestations d = Some refs
         \<and> attestations r = map convertRawAttestationToData refs
         \<and> decoded t' = decoded t @ (case d_attestation d of
                                        None \<Rightarrow> []
                                      | Some root \<Rightarrow> [r_decodedDataJson root])
         \<and> (\<forall>root. d_attestation d = Some root \<and> r_refUID root \<noteq> rootId
                    \<and> list_all (\<lambda>x. r_refUID x = rootId) refs
                \<longrightarrow> convertRawAttestationToData root \<notin> set (attestations r))"
proof -
  from assms obtain ep where ep: "getEndpoint chainId = Some ep"
    using getEndpoint_success1 getEndpoint_success2 by blast
  from assms obtain l t1 where
    m: "fetchMainAttestations1 dec net ep rootId t = (Inr (attestations r, l), t1)
      \<or> fetchMainAttestations2 dec net ep rootId t = (Inr (attestations r, l), t1)"
    and t1: "decoded t' = decoded t1"
    using fetchAttestations_success
        [where m = "fetchMainAttestations1 dec net ep rootId t" and net = net and ep = ep
           and r = r and t' = t']
      fetchAttestations_success
        [where m = "fetchMainAttestations2 dec net ep rootId t" and net = net and ep = ep
           and r = r and t' = t']
    by (auto simp: fetchAttestations1_endpoint [OF ep] fetchAttestations2_endpoint [OF ep])
  from fetchMainAttestations_success_data [OF m] obtain st d where
    resp: "net (length (sent t)) (Post ep GetAttestation rootId)
             = Response True st (JsonObject (Some d))"
    by blast
  from m obtain refs where refs: "d_attestations d = Some refs"
    "attestations r = map convertRawAttestationToData refs"
    and dec: "decoded t1 = decoded t @ (case d_attestation d of
                                        None \<Rightarrow> []
                                      | Some root \<Rightarrow> [r_decodedDataJson root])"
    by (auto simp: fetchMainAttestations1_data [where net = net and t = t, OF resp]
          fetchMainAttestations2_data [where net = net and t = t, OF resp] Let_def
          split: option.splits if_splits)
  have "convertRawAttestationToData root \<notin> set (attestations r)"
    if "r_refUID root \<noteq> rootId" "list_all (\<lambda>x. r_refUID x = rootId) refs" for root
    using that refs(2) by (simp only: converted_root_not_among not_False_eq_True)
  with ep resp refs dec t1 show ?thesis by auto
qed

theorem attestations_are_the_referencing_records_witness:
  "fetchAttestations2 scenarioDecoder
     (storeWith \<lparr>d_attestation = Some rootAAA, d_attestations = Some [obsBBB, obsCCC]\<rparr>
        (Response True 200
           (JsonObject (Some \<lparr>d_attestation = Some boundaryLOC, d_attestations = None\<rparr>))))
     1 ''0xAAA'' emptyTrace
   = (Inr \<lparr>attestations = map convertRawAttestationToData [obsBBB, obsCCC],
           locationAttestation = Some (convertRawAttestationToData boundaryLOC)\<rparr>,
      \<lparr>sent = [Post ''https://mainnet.easscan.org/graphql'' GetAttestation ''0xAAA'',
               Post ''https://mainnet.easscan.org/graphql'' GetLocationAttestation ''0xLOC''],
       decoded = [Some ''locationUID=0xLOC'']\<rparr>)
   \<and> (\<exists>ep st d refs.
         getEndpoint 1 = Some ep
       \<and> storeWith \<lparr>d_attestation = Some rootAAA, d_attestations = Some [obsBBB, obsCCC]\<rparr>
            (Response True 200
               (JsonObject (Some \<lparr>d_attestation = Some boundaryLOC, d_attestations = None\<rparr>)))
            (length (sent emptyTrace)) (Post ep GetAttestation ''0xAAA'')
           = Response True st (JsonObject (Some d))
       \<and> d_attestations d = Some refs
       \<and> map convertRawAttestationToData [obsBBB, obsCCC] = map convertRawAttestationToData refs
       \<and> convertRawAttestationToData rootAAA
            \<notin> set (map convertRawAttestationToData [obsBBB, obsCCC]))"
proof -
  let ?net = "storeWith \<lparr>d_attestation = Some rootAAA, d_attestations = Some [obsBBB, obsCCC]\<rparr>
        (Response True 200
           (JsonObject (Some \<lparr>d_attestation = Some boundaryLOC, d_attestations = None\<rparr>)))"
  let ?r = "\<lparr>attestations = map convertRawAttestationToData [obsBBB, obsCCC],
           locationAttestation = Some (convertRawAttestationToData boundaryLOC)\<rparr>"
  let ?t = "\<lparr>sent = [Post ''https://mainnet.easscan.org/graphql'' GetAttestation ''0xAAA'',
               Post ''https://mainnet.easscan.org/graphql'' GetLocationAttestation ''0xLOC''],
       decoded = [Some ''locationUID=0xLOC'']\<rparr>"
  have run: "fetchAttestations2 scenarioDecoder ?net 1 ''0xAAA'' emptyTrace = (Inr ?r, ?t)"
    by (simp add: client_defs scenario_defs)
  then have h: "fetchAttestations1 scenarioDecoder ?net 1 ''0xAAA'' emptyTrace = (Inr ?r, ?t)
              \<or> fetchAttestations2 scenarioDecoder ?net 1 ''0xAAA'' emptyTrace = (Inr ?r, ?t)"
    by (rule disjI2)
  from attestations_are_the_referencing_records [OF h]
  obtain ep st d refs where
    ep: "getEndpoint 1 = Some ep"
    and resp: "?net (length (sent emptyTrace)) (Post ep GetAttestation ''0xAAA'')
                 = Response True st (JsonObject (Some d))"
    and refs: "d_attestations d = Some refs"
    and atts: "attestations ?r = map convertRawAttestationToData refs"
    and root: "\<forall>root. d_attestation d = Some root \<and> r_refUID root \<noteq> ''0xAAA''
                    \<and> list_all (\<lambda>x. r_refUID x = ''0xAAA'') refs
                \<longrightarrow> convertRawAttestationToData root \<notin> set (attestations ?r)"
    by blast
  from resp have d: "d = \<lparr>d_attestation = Some rootAAA, d_attestations = Some [obsBBB, obsCCC]\<rparr>"
    by (simp add: storeWith_def)
  with refs have r: "refs = [obsBBB, obsCCC]" by simp
  have "d_attestation d = Some rootAAA \<and> r_refUID rootAAA \<noteq> ''0xAAA''
          \<and> list_all (\<lambda>x. r_refUID x = ''0xAAA'') refs"
    by (simp add: d r rootAAA_def obsBBB_def obsCCC_def)
  with root have "convertRawAttestationToData rootAAA \<notin> set (attestations ?r)"
    by blast
  then have n: "convertRawAttestationToData rootAAA
            \<notin> set (map convertRawAttestationToData [obsBBB, obsCCC])"
    by simp
  from atts have a: "map convertRawAttestationToData [obsBBB, obsCCC]
                       = map convertRawAttestationToData refs"
    by simp
  from run ep resp refs a n show ?thesis by blast
qed

end
